theory Spec2Isabelle
  imports Complex_Main
begin

section \<open>The pre-push quality gate \<^verbatim>\<open>tools/pre-push-check.py\<close>\<close>

text \<open>
  The script is one straight-line procedure: a bypass check on two environment
  variables, a test run in a child process, the ingestion of
  \<^verbatim>\<open>coverage/coverage-summary.json\<close>, four threshold comparisons, a best-effort
  upload and the final \<^verbatim>\<open>sys.exit\<close>. The embedding below follows it stage by
  stage. Everything the script asks of its surroundings (the environment, its standard
  output, the two child processes, the file system) is answered by a \<open>world\<close> record;
  everything it does to them is written to a trace of events, so that "no file was
  read" or "printed once" are statements about the trace.
\<close>

subsection \<open>Python values\<close>

text \<open>
  Exceptions are values. Every constructor is a subclass of Python's \<^verbatim>\<open>Exception\<close>,
  the class both \<^verbatim>\<open>except Exception\<close> handlers of the script catch.
  \<^verbatim>\<open>JSONDecodeError\<close>, \<^verbatim>\<open>UnicodeDecodeError\<close> and \<^verbatim>\<open>UnicodeEncodeError\<close> are
  subclasses of \<^verbatim>\<open>ValueError\<close> in Python; they never reach the handler of
  \<open>safe_float\<close>, and elsewhere the class makes no difference. Asynchronous exits that
  are not \<^verbatim>\<open>Exception\<close>s (\<^verbatim>\<open>KeyboardInterrupt\<close>) are not modelled.
\<close>

datatype pyexn =
    ValueError | TypeError | OverflowError | AttributeError
  | FileNotFoundError | PermissionError | JSONDecodeError | UnicodeDecodeError
  | UnicodeEncodeError | OtherException

text \<open>
  A Python \<^verbatim>\<open>float\<close> is an IEEE binary64 value. \<open>Finite q\<close> carries the exact
  rational value of a finite double (\<open>Finite 0\<close> is \<^verbatim>\<open>0.0\<close>), \<open>NegZero\<close> is
  \<^verbatim>\<open>-0.0\<close>, which Python prints differently from \<^verbatim>\<open>0.0\<close>.
\<close>

datatype pyfloat = Finite rat | NegZero | PosInf | NegInf | NaN

text \<open>
  What \<^verbatim>\<open>json.load\<close> returns: \<^verbatim>\<open>None\<close>, \<^verbatim>\<open>bool\<close>, \<^verbatim>\<open>int\<close> (unbounded),
  \<^verbatim>\<open>float\<close> (Python's decoder also accepts \<^verbatim>\<open>NaN\<close>, \<^verbatim>\<open>Infinity\<close> and
  \<^verbatim>\<open>-Infinity\<close>), \<^verbatim>\<open>str\<close>, \<^verbatim>\<open>list\<close> and \<^verbatim>\<open>dict\<close>. A \<^verbatim>\<open>dict\<close> is an
  association list read with \<open>map_of\<close>: the first pair of a key is the dict's entry.
  Strings are \<open>char list\<close>s, so they range over the code points 0 to 255.
\<close>

datatype json =
    JNull
  | JBool bool
  | JInt int
  | JFloat pyfloat
  | JStr string
  | JList "json list"
  | JObj "(string \<times> json) list"

text \<open>
  The four coverage variables hold a \<^verbatim>\<open>float\<close> after a successful ingestion and
  the \<^verbatim>\<open>int\<close> \<^verbatim>\<open>0\<close> on both recovery paths (\<^verbatim>\<open>lines_cov = ... = 0\<close>).
\<close>

datatype pynum = PyInt int | PyFloat pyfloat

subsection \<open>The builtin \<^verbatim>\<open>float()\<close>\<close>

text \<open>
  \<^verbatim>\<open>float(x)\<close> rounds to the nearest double, ties to even. \<open>bit_length\<close> is
  Python's \<^verbatim>\<open>int.bit_length\<close> on a non-negative \<^verbatim>\<open>int\<close>; for \<open>0 < x\<close>,
  \<open>floor_log2 x\<close> is the exponent \<open>k\<close> with \<open>2^k \<le> x < 2^(k+1)\<close>. A double keeps
  53 significant bits and no bit below \<open>2^-1074\<close>. \<open>round_double\<close> takes a magnitude
  and returns \<open>None\<close> when the rounded value is beyond the largest finite double.
\<close>

function bit_length :: "int \<Rightarrow> int" where
  "bit_length n = (if n \<le> 0 then 0 else 1 + bit_length (n div 2))"
  by pat_completeness auto
termination
  by (relation "measure nat") auto

declare bit_length.simps [simp del]

definition ipow :: "rat \<Rightarrow> int \<Rightarrow> rat" where
  "ipow b e = (if 0 \<le> e then b ^ nat e else 1 / b ^ nat (- e))"

definition floor_log2 :: "rat \<Rightarrow> int" where
  "floor_log2 x =
     (if 1 \<le> x then bit_length \<lfloor>x\<rfloor> - 1
      else - bit_length (\<lceil>1 / x\<rceil> - 1))"

definition round_half_even :: "rat \<Rightarrow> int" where
  "round_half_even x =
     (let f = \<lfloor>x\<rfloor>; d = x - of_int f
      in if d < 1 / 2 then f
         else if 1 / 2 < d then f + 1
         else if even f then f else f + 1)"

definition round_double :: "rat \<Rightarrow> rat option" where
  "round_double x =
     (if x = 0 then Some 0
      else
        let e = max (floor_log2 x - 52) (- 1074);
            r = of_int (round_half_even (x / ipow 2 e)) * ipow 2 e
        in if 2 ^ 1024 \<le> r then None else Some r)"

text \<open>\<^verbatim>\<open>float(n)\<close> for an \<^verbatim>\<open>int\<close>: \<^verbatim>\<open>OverflowError\<close> when \<open>n\<close> is too large.\<close>

definition float_of_int :: "int \<Rightarrow> pyexn + pyfloat" where
  "float_of_int n =
     (case round_double (of_int \<bar>n\<bar>) of
        None \<Rightarrow> Inl OverflowError
      | Some r \<Rightarrow> Inr (Finite (if n < 0 then - r else r)))"

text \<open>
  \<^verbatim>\<open>float(s)\<close> for a \<^verbatim>\<open>str\<close>. Leading and trailing whitespace is dropped (the
  ASCII whitespace, and of the code points 128 to 255 the two Unicode spaces U+0085 and
  U+00A0); then the whole rest has to match
  \<^verbatim>\<open>[sign] (number [exponent] | "inf" | "infinity" | "nan")\<close>, the words in any
  letter case, where \<^verbatim>\<open>number\<close> is \<^verbatim>\<open>[digitpart] "." digitpart | digitpart ["."]\<close>,
  \<^verbatim>\<open>exponent\<close> is \<^verbatim>\<open>("e" | "E") [sign] digitpart\<close> and \<^verbatim>\<open>digitpart\<close> is
  \<^verbatim>\<open>digit (["_"] digit)*\<close>. Anything else raises \<^verbatim>\<open>ValueError\<close>; a value that is
  too large becomes an infinity, not an error.
\<close>

definition py_isspace :: "char \<Rightarrow> bool" where
  "py_isspace c =
     (let n = (of_char c :: nat)
      in (9 \<le> n \<and> n \<le> 13) \<or> n = 32 \<or> n = 133 \<or> n = 160)"

definition strip :: "string \<Rightarrow> string" where
  "strip s = rev (dropWhile py_isspace (rev (dropWhile py_isspace s)))"

definition to_lower :: "char \<Rightarrow> char" where
  "to_lower c =
     (let n = (of_char c :: nat)
      in if 65 \<le> n \<and> n \<le> 90 then char_of (n + 32) else c)"

definition is_digit :: "char \<Rightarrow> bool" where
  "is_digit c = (let n = (of_char c :: nat) in 48 \<le> n \<and> n \<le> 57)"

definition digit_val :: "char \<Rightarrow> nat" where
  "digit_val c = of_char c - 48"

definition split_sign :: "string \<Rightarrow> bool \<times> string" where
  "split_sign s =
     (case s of
        [] \<Rightarrow> (False, [])
      | c # cs \<Rightarrow>
          if c = CHR ''-'' then (True, cs)
          else if c = CHR ''+'' then (False, cs)
          else (False, s))"

text \<open>The digits after the first one of a \<^verbatim>\<open>digitpart\<close>, and what follows them.\<close>

fun digit_tail :: "string \<Rightarrow> nat list \<times> string" where
  "digit_tail [] = ([], [])"
| "digit_tail [c] = (if is_digit c then ([digit_val c], []) else ([], [c]))"
| "digit_tail (c # d # cs) =
     (if is_digit c then
        (case digit_tail (d # cs) of (ds, r) \<Rightarrow> (digit_val c # ds, r))
      else if c = CHR ''_'' \<and> is_digit d then
        (case digit_tail cs of (ds, r) \<Rightarrow> (digit_val d # ds, r))
      else ([], c # d # cs))"

definition digitpart :: "string \<Rightarrow> (nat list \<times> string) option" where
  "digitpart s =
     (case s of
        [] \<Rightarrow> None
      | c # cs \<Rightarrow>
          if is_digit c then
            (case digit_tail cs of (ds, r) \<Rightarrow> Some (digit_val c # ds, r))
          else None)"

text \<open>\<open>number s\<close>: the digits before the point, the digits after it, and the rest.\<close>

definition number :: "string \<Rightarrow> (nat list \<times> nat list \<times> string) option" where
  "number s =
     (case digitpart s of
        Some (ip, r) \<Rightarrow>
          (case r of
             [] \<Rightarrow> Some (ip, [], [])
           | c # r' \<Rightarrow>
               if c = CHR ''.'' then
                 (case digitpart r' of
                    Some (fp, r'') \<Rightarrow> Some (ip, fp, r'')
                  | None \<Rightarrow> Some (ip, [], r'))
               else Some (ip, [], r))
      | None \<Rightarrow>
          (case s of
             [] \<Rightarrow> None
           | c # r' \<Rightarrow>
               if c = CHR ''.'' then
                 (case digitpart r' of
                    Some (fp, r'') \<Rightarrow> Some ([], fp, r'')
                  | None \<Rightarrow> None)
               else None))"

definition digits_value :: "nat list \<Rightarrow> int" where
  "digits_value ds = foldl (\<lambda>a d. 10 * a + int d) 0 ds"

text \<open>\<open>exponent s\<close>: the exponent and the rest; no exponent is exponent 0.\<close>

definition exponent :: "string \<Rightarrow> int \<times> string" where
  "exponent s =
     (case s of
        [] \<Rightarrow> (0, [])
      | c # r \<Rightarrow>
          if c = CHR ''e'' \<or> c = CHR ''E'' then
            (case split_sign r of
               (neg, r') \<Rightarrow>
                 (case digitpart r' of
                    Some (ds, r'') \<Rightarrow>
                      (if neg then - digits_value ds else digits_value ds, r'')
                  | None \<Rightarrow> (0, s)))
          else (0, s))"

definition floatnumber :: "string \<Rightarrow> rat option" where
  "floatnumber s =
     (case number s of
        None \<Rightarrow> None
      | Some (ip, fp, r) \<Rightarrow>
          (case exponent r of
             (ex, r') \<Rightarrow>
               if r' = [] then
                 Some (of_int (digits_value (ip @ fp)) * ipow 10 (ex - int (length fp)))
               else None))"

definition float_of_str :: "string \<Rightarrow> pyexn + pyfloat" where
  "float_of_str s =
     (case split_sign (strip s) of
        (neg, body) \<Rightarrow>
          let low = map to_lower body
          in if low = ''inf'' \<or> low = ''infinity'' then
               Inr (if neg then NegInf else PosInf)
             else if low = ''nan'' then Inr NaN
             else
               (case floatnumber body of
                  None \<Rightarrow> Inl ValueError
                | Some q \<Rightarrow>
                    (case round_double q of
                       None \<Rightarrow> Inr (if neg then NegInf else PosInf)
                     | Some r \<Rightarrow>
                         Inr (if neg then (if r = 0 then NegZero else Finite (- r))
                              else Finite r))))"

text \<open>
  \<^verbatim>\<open>float(value)\<close> on a decoded JSON value: \<^verbatim>\<open>None\<close>, a \<^verbatim>\<open>list\<close> and a
  \<^verbatim>\<open>dict\<close> raise \<^verbatim>\<open>TypeError\<close>; \<^verbatim>\<open>bool\<close> is a subclass of \<^verbatim>\<open>int\<close>.
\<close>

fun py_float :: "json \<Rightarrow> pyexn + pyfloat" where
  "py_float JNull = Inl TypeError"
| "py_float (JBool b) = Inr (Finite (if b then 1 else 0))"
| "py_float (JInt n) = float_of_int n"
| "py_float (JFloat f) = Inr f"
| "py_float (JStr s) = float_of_str s"
| "py_float (JList xs) = Inl TypeError"
| "py_float (JObj kvs) = Inl TypeError"

subsection \<open>\<^verbatim>\<open>safe_float\<close> (lines 66 to 72)\<close>

text \<open>
  \<^verbatim>\<open>
  def safe_float(value, default=0.0):
      try:
          if value == 'Unknown':
              return default
          return float(value)
      except (ValueError, TypeError):
          return default
  \<close>
  Only \<^verbatim>\<open>ValueError\<close> and \<^verbatim>\<open>TypeError\<close> are caught; any other exception of
  \<^verbatim>\<open>float\<close> leaves the function.
\<close>

definition safe_float_default :: "json \<Rightarrow> pyfloat \<Rightarrow> pyexn + pyfloat" where
  "safe_float_default val dflt =
     (case (if val = JStr ''Unknown'' then Inr dflt else py_float val) of
        Inl e \<Rightarrow> if e = ValueError \<or> e = TypeError then Inr dflt else Inl e
      | Inr f \<Rightarrow> Inr f)"

definition safe_float :: "json \<Rightarrow> pyexn + pyfloat" where
  "safe_float val = safe_float_default val (Finite 0)"

subsection \<open>The surroundings of the script and what it does to them\<close>

text \<open>
  What becomes of a command given to \<^verbatim>\<open>subprocess.run\<close>. \<open>NotStarted e\<close>: the
  child could not be launched and \<^verbatim>\<open>Popen\<close> raised \<open>e\<close> (command not found, for
  one). \<open>Exited status None\<close>: the child ran, exited with \<open>status\<close>, and its captured
  output was read. \<open>Exited status (Some e)\<close>: the child ran and exited with \<open>status\<close>,
  but reading its captured output raised \<open>e\<close>; with \<^verbatim>\<open>text=True\<close> the output is
  decoded after the child has ended, and bytes that do not decode raise
  \<^verbatim>\<open>UnicodeDecodeError\<close>.
\<close>

datatype child = NotStarted pyexn | Exited int "pyexn option"

text \<open>
  The \<open>world\<close> answers the script's questions: \<^verbatim>\<open>os.environ.get\<close>, whether
  \<^verbatim>\<open>sys.stdout\<close> can encode the glyphs the script prints, what becomes of a child
  process, \<^verbatim>\<open>os.path.exists\<close>, and \<^verbatim>\<open>open\<close> followed by \<^verbatim>\<open>json.load\<close> (the
  exception either of them raises, or the decoded value). Each question is asked at
  most once in a run, so one answer per question describes a run.

  \<open>stdout_encodes\<close> is fixed when the interpreter starts (from
  \<^verbatim>\<open>PYTHONIOENCODING\<close>, the UTF-8 mode and the locale). It is false when the stream's
  encoding lacks the glyphs and its error handler is \<^verbatim>\<open>strict\<close>, as with
  \<^verbatim>\<open>PYTHONIOENCODING=ascii\<close>; a \<^verbatim>\<open>print\<close> of a line with a glyph then raises
  \<^verbatim>\<open>UnicodeEncodeError\<close> and writes nothing. Failures of the stream itself (a closed
  or full standard output) are not modelled.
\<close>

record world =
  environ :: "string \<Rightarrow> string option"
  stdout_encodes :: bool
  spawn :: "string list \<Rightarrow> child"
  path_exists :: "string \<Rightarrow> bool"
  json_load :: "string \<Rightarrow> pyexn + json"

text \<open>
  \<^verbatim>\<open>subprocess.run(cmd, stdout=PIPE, stderr=PIPE, text=True)\<close>: the exception it
  raises, or the \<^verbatim>\<open>returncode\<close> of the result.
\<close>

definition subprocess_run :: "world \<Rightarrow> string list \<Rightarrow> pyexn + int" where
  "subprocess_run w cmd =
     (case spawn w cmd of
        NotStarted e \<Rightarrow> Inl e
      | Exited returncode None \<Rightarrow> Inr returncode
      | Exited returncode (Some e) \<Rightarrow> Inl e)"

datatype metric = Lines | Statements | Functions | Branches

text \<open>
  The lines the script prints, one constructor per \<^verbatim>\<open>print\<close> statement, in the
  order of the source. \<open>TestsFailedNoVerify\<close> and \<open>FixCoverageNoVerify\<close> are the two
  lines that name \<^verbatim>\<open>git push --no-verify\<close>; \<open>OrSetSkipPrePush\<close> is the line
  \<^verbatim>\<open>Or set environment variable: SKIP_PRE_PUSH=1 git push\<close>. A threshold line
  carries the metric, the value and the threshold it shows; \<open>CoverageBelow\<close> is the line
  with the cross, \<open>CoverageOk\<close> the line with the check mark. A message that formats an
  exception carries the exception.
\<close>

datatype message =
    SkipNotice
  | RunningGates
  | RunningTests
  | TestsFailedNoVerify
  | OrSetSkipPrePush
  | ErrorRunningTests pyexn
  | CheckingThresholds
  | ErrorParsingCoverage pyexn
  | NoCoverageSummary
  | ContinueMinimalChecks
  | CoverageBelow metric pynum int
  | CoverageOk metric pynum int
  | UploadingCoverage
  | UploadFailed
  | UploadError pyexn
  | NoLcovSkipUpload
  | ThresholdsNotMet
  | FixCoverageNoVerify
  | AllThresholdsMet
  | GatesPassed

text \<open>
  The trace of a run: every printed line, every call of \<^verbatim>\<open>subprocess.run\<close>, every
  \<^verbatim>\<open>os.path.exists\<close> and every \<^verbatim>\<open>open\<close>. \<open>Traceback e\<close> is the interpreter's
  report of the uncaught exception \<open>e\<close> on the standard error stream; the process then
  ends with exit code 1.
\<close>

datatype event =
    Print message
  | Run "string list"
  | Exists string
  | Open string
  | Traceback pyexn

definition test_command :: "string list" where
  "test_command = [''pnpm'', ''run'', ''test:coverage'']"

definition upload_command :: "string list" where
  "upload_command = [''pnpm'', ''run'', ''coverage:upload'']"

definition summary_path :: string where
  "summary_path = ''coverage/coverage-summary.json''"

definition lcov_path :: string where
  "lcov_path = ''coverage/lcov.info''"

definition LINES_THRESHOLD :: int where
  "LINES_THRESHOLD = 70"

definition STATEMENTS_THRESHOLD :: int where
  "STATEMENTS_THRESHOLD = 70"

definition FUNCTIONS_THRESHOLD :: int where
  "FUNCTIONS_THRESHOLD = 65"

definition BRANCHES_THRESHOLD :: int where
  "BRANCHES_THRESHOLD = 60"

subsection \<open>Bypass check (lines 12 to 14)\<close>

text \<open>\<^verbatim>\<open>os.environ.get(name) == '1'\<close>: an unset variable gives \<^verbatim>\<open>None\<close>.\<close>

definition skip_requested :: "world \<Rightarrow> bool" where
  "skip_requested w =
     (environ w ''SKIP_HOOKS'' = Some ''1'' \<or> environ w ''SKIP_PRE_PUSH'' = Some ''1'')"

subsection \<open>Test execution (lines 19 to 28)\<close>

text \<open>
  The result is the trace of the stage and \<open>Some code\<close> where the script calls
  \<^verbatim>\<open>sys.exit(code)\<close>. The \<^verbatim>\<open>SystemExit\<close> raised inside the \<^verbatim>\<open>try\<close> is no
  \<^verbatim>\<open>Exception\<close>, so the handler below it does not catch it.
\<close>

definition run_tests :: "world \<Rightarrow> event list \<times> int option" where
  "run_tests w =
     (case subprocess_run w test_command of
        Inr returncode \<Rightarrow>
          if returncode \<noteq> 0 then
            ([Run test_command, Print TestsFailedNoVerify, Print OrSetSkipPrePush], Some 1)
          else ([Run test_command], None)
      | Inl e \<Rightarrow> ([Run test_command, Print (ErrorRunningTests e)], Some 1))"

subsection \<open>Coverage ingestion (lines 40 to 91)\<close>

record coverage =
  lines_cov :: pynum
  statements_cov :: pynum
  functions_cov :: pynum
  branches_cov :: pynum

text \<open>\<^verbatim>\<open>lines_cov = statements_cov = functions_cov = branches_cov = 0\<close>\<close>

definition zero_coverage :: coverage where
  "zero_coverage =
     \<lparr>lines_cov = PyInt 0, statements_cov = PyInt 0,
      functions_cov = PyInt 0, branches_cov = PyInt 0\<rparr>"

text \<open>
  \<^verbatim>\<open>obj.get(key, dflt)\<close>: only a \<^verbatim>\<open>dict\<close> has the method, every other decoded
  value raises \<^verbatim>\<open>AttributeError\<close>.
\<close>

fun dict_get :: "json \<Rightarrow> string \<Rightarrow> json \<Rightarrow> pyexn + json" where
  "dict_get (JObj kvs) k dflt =
     Inr (case map_of kvs k of None \<Rightarrow> dflt | Some v \<Rightarrow> v)"
| "dict_get JNull k dflt = Inl AttributeError"
| "dict_get (JBool b) k dflt = Inl AttributeError"
| "dict_get (JInt n) k dflt = Inl AttributeError"
| "dict_get (JFloat f) k dflt = Inl AttributeError"
| "dict_get (JStr s) k dflt = Inl AttributeError"
| "dict_get (JList xs) k dflt = Inl AttributeError"

text \<open>A statement that raises ends the \<^verbatim>\<open>try\<close> body with its exception.\<close>

definition and_then :: "pyexn + 'a \<Rightarrow> ('a \<Rightarrow> pyexn + 'b) \<Rightarrow> pyexn + 'b" where
  "and_then r f = (case r of Inl e \<Rightarrow> Inl e | Inr v \<Rightarrow> f v)"

text \<open>\<^verbatim>\<open>total_coverage.get(name, {}).get('pct')\<close>\<close>

definition get_pct :: "json \<Rightarrow> string \<Rightarrow> pyexn + json" where
  "get_pct total_coverage name =
     and_then (dict_get total_coverage name (JObj [])) (\<lambda>m. dict_get m ''pct'' JNull)"

text \<open>
  The body of the \<^verbatim>\<open>try\<close> (lines 42 to 78), in the order of the source: load,
  the four lookups, the four conversions. \<^verbatim>\<open>DEBUG\<close> is the constant \<^verbatim>\<open>False\<close>,
  so the prints it guards never run and are left out.
\<close>

definition parse_summary :: "world \<Rightarrow> pyexn + coverage" where
  "parse_summary w =
     and_then (json_load w summary_path) (\<lambda>coverage_data.
     and_then (dict_get coverage_data ''total'' (JObj [])) (\<lambda>total_coverage.
     and_then (get_pct total_coverage ''lines'') (\<lambda>lines_pct.
     and_then (get_pct total_coverage ''statements'') (\<lambda>statements_pct.
     and_then (get_pct total_coverage ''functions'') (\<lambda>functions_pct.
     and_then (get_pct total_coverage ''branches'') (\<lambda>branches_pct.
     and_then (safe_float lines_pct) (\<lambda>l.
     and_then (safe_float statements_pct) (\<lambda>s.
     and_then (safe_float functions_pct) (\<lambda>f.
     and_then (safe_float branches_pct) (\<lambda>b.
       Inr \<lparr>lines_cov = PyFloat l, statements_cov = PyFloat s,
            functions_cov = PyFloat f, branches_cov = PyFloat b\<rparr>))))))))))"

definition read_coverage :: "world \<Rightarrow> event list \<times> coverage" where
  "read_coverage w =
     (if path_exists w summary_path then
        (case parse_summary w of
           Inr cov \<Rightarrow> ([Exists summary_path, Open summary_path], cov)
         | Inl e \<Rightarrow>
             ([Exists summary_path, Open summary_path,
               Print (ErrorParsingCoverage e), Print ContinueMinimalChecks],
              zero_coverage))
      else
        ([Exists summary_path, Print NoCoverageSummary, Print ContinueMinimalChecks],
         zero_coverage))"

subsection \<open>Threshold evaluation (lines 94 to 122)\<close>

text \<open>
  Python's \<^verbatim>\<open>value < threshold\<close> for a \<^verbatim>\<open>float\<close> or \<^verbatim>\<open>int\<close> against an
  \<^verbatim>\<open>int\<close>: exact on finite values, false for \<^verbatim>\<open>nan\<close> and \<^verbatim>\<open>inf\<close>.
\<close>

fun float_lt :: "pyfloat \<Rightarrow> int \<Rightarrow> bool" where
  "float_lt (Finite q) t = (q < of_int t)"
| "float_lt NegZero t = (0 < t)"
| "float_lt PosInf t = False"
| "float_lt NegInf t = True"
| "float_lt NaN t = False"

fun num_lt :: "pynum \<Rightarrow> int \<Rightarrow> bool" where
  "num_lt (PyInt i) t = (i < t)"
| "num_lt (PyFloat f) t = float_lt f t"

text \<open>
  One \<^verbatim>\<open>if\<close>/\<^verbatim>\<open>else\<close> block of the stage: it prints one of two lines and clears
  the flag on the first.
\<close>

definition check :: "metric \<Rightarrow> pynum \<Rightarrow> int \<Rightarrow> event list \<times> bool \<Rightarrow> event list \<times> bool" where
  "check m v t st =
     (case st of
        (out, checks_passed) \<Rightarrow>
          if num_lt v t then (out @ [Print (CoverageBelow m v t)], False)
          else (out @ [Print (CoverageOk m v t)], checks_passed))"

definition check_thresholds :: "coverage \<Rightarrow> event list \<times> bool" where
  "check_thresholds cov =
     check Branches (branches_cov cov) BRANCHES_THRESHOLD
       (check Functions (functions_cov cov) FUNCTIONS_THRESHOLD
          (check Statements (statements_cov cov) STATEMENTS_THRESHOLD
             (check Lines (lines_cov cov) LINES_THRESHOLD ([], True))))"

subsection \<open>Coverage upload (lines 125 to 137)\<close>

definition upload_coverage :: "world \<Rightarrow> event list" where
  "upload_coverage w =
     Print UploadingCoverage # Exists lcov_path #
     (if path_exists w lcov_path then
        (case subprocess_run w upload_command of
           Inr returncode \<Rightarrow>
             if returncode \<noteq> 0 then [Run upload_command, Print UploadFailed]
             else [Run upload_command]
         | Inl e \<Rightarrow> [Run upload_command, Print (UploadError e)])
      else [Print NoLcovSkipUpload])"

subsection \<open>Final result (lines 140 to 148)\<close>

definition final_result :: "bool \<Rightarrow> event list \<times> int" where
  "final_result checks_passed =
     (if \<not> checks_passed then
        ([Print ThresholdsNotMet, Print FixCoverageNoVerify, Print OrSetSkipPrePush], 1)
      else ([Print AllThresholdsMet, Print GatesPassed], 0))"

subsection \<open>The whole script\<close>

text \<open>
  The first line a run prints is line 13 (with a bypass) or line 16 (without). Both
  carry the glyph U+1F9CA and stand outside every \<^verbatim>\<open>try\<close>: on a standard output that
  cannot encode it, \<^verbatim>\<open>print\<close> raises \<^verbatim>\<open>UnicodeEncodeError\<close>, nothing catches it,
  and the run ends there with a traceback and exit code 1.
\<close>

definition print_first :: "world \<Rightarrow> message \<Rightarrow> pyexn + event list" where
  "print_first w m =
     (if stdout_encodes w then Inr [Print m] else Inl UnicodeEncodeError)"

text \<open>
  The trace of a run and the exit code of the process. Every later line is printed
  after line 16 has been. U+1F9CA lies outside the Basic Multilingual Plane, so a
  standard output that took it either encodes all of Unicode or does not raise on what
  it cannot encode; it takes the glyphs of the later lines (U+274C, U+2705, U+26A0
  U+FE0F) as well. This is why a \<^verbatim>\<open>print\<close> inside the stages is an event and nothing
  more.
\<close>

definition main :: "world \<Rightarrow> event list \<times> int" where
  "main w =
     (if skip_requested w then
        (case print_first w SkipNotice of
           Inl e \<Rightarrow> ([Traceback e], 1)
         | Inr out0 \<Rightarrow> (out0, 0))
      else
        (case print_first w RunningGates of
           Inl e \<Rightarrow> ([Traceback e], 1)
         | Inr out0 \<Rightarrow>
             (case run_tests w of
                (out1, Some code) \<Rightarrow> (out0 @ [Print RunningTests] @ out1, code)
              | (out1, None) \<Rightarrow>
                  (case read_coverage w of
                     (out2, cov) \<Rightarrow>
                       (case check_thresholds cov of
                          (out3, checks_passed) \<Rightarrow>
                            (case final_result checks_passed of
                               (out5, code) \<Rightarrow>
                                 (out0 @ [Print RunningTests] @ out1
                                    @ [Print CheckingThresholds] @ out2 @ out3
                                    @ upload_coverage w @ out5,
                                  code)))))))"

subsection \<open>What the specification calls meeting the thresholds\<close>

text \<open>
  A metric meets its threshold when it is not strictly below it. This is the
  specification's wording (\<^emph>\<open>a value strictly less than the threshold fails; a value
  equal to or above it passes\<close>), written with Python's comparison.
\<close>

definition thresholds_met :: "coverage \<Rightarrow> bool" where
  "thresholds_met cov =
     (\<not> num_lt (lines_cov cov) LINES_THRESHOLD \<and>
      \<not> num_lt (statements_cov cov) STATEMENTS_THRESHOLD \<and>
      \<not> num_lt (functions_cov cov) FUNCTIONS_THRESHOLD \<and>
      \<not> num_lt (branches_cov cov) BRANCHES_THRESHOLD)"

text \<open>
  The line the stage prints for a metric, the events that are such lines, and the
  metric a line is about.
\<close>

definition threshold_line :: "metric \<Rightarrow> pynum \<Rightarrow> int \<Rightarrow> event" where
  "threshold_line m v t =
     (if num_lt v t then Print (CoverageBelow m v t) else Print (CoverageOk m v t))"

fun is_threshold_line :: "event \<Rightarrow> bool" where
  "is_threshold_line (Print (CoverageBelow m v t)) = True"
| "is_threshold_line (Print (CoverageOk m v t)) = True"
| "is_threshold_line ev = False"

fun line_metric :: "event \<Rightarrow> metric option" where
  "line_metric (Print (CoverageBelow m v t)) = Some m"
| "line_metric (Print (CoverageOk m v t)) = Some m"
| "line_metric ev = None"

subsection \<open>Example runs\<close>

text \<open>
  The summary of the specification's passing scenario:
  \<^verbatim>\<open>{"total": {"lines": {"pct": 75}, "statements": {"pct": 71},
             "functions": {"pct": 66}, "branches": {"pct": 61}}}\<close>
\<close>

definition summary_pass :: json where
  "summary_pass =
     JObj [(''total'',
       JObj [(''lines'', JObj [(''pct'', JInt 75)]),
             (''statements'', JObj [(''pct'', JInt 71)]),
             (''functions'', JObj [(''pct'', JInt 66)]),
             (''branches'', JObj [(''pct'', JInt 61)])])]"

text \<open>The same with \<^verbatim>\<open>"lines": {"pct": 65}\<close>.\<close>

definition summary_lines_65 :: json where
  "summary_lines_65 =
     JObj [(''total'',
       JObj [(''lines'', JObj [(''pct'', JInt 65)]),
             (''statements'', JObj [(''pct'', JInt 71)]),
             (''functions'', JObj [(''pct'', JInt 66)]),
             (''branches'', JObj [(''pct'', JInt 61)])])]"

text \<open>
  \<^verbatim>\<open>{"total": {"lines": {"pct": 75}, "statements": 71}}\<close>: the entry of
  \<^verbatim>\<open>statements\<close> is a number, not an object.
\<close>

definition summary_broken :: json where
  "summary_broken =
     JObj [(''total'',
       JObj [(''lines'', JObj [(''pct'', JInt 75)]),
             (''statements'', JInt 71)])]"

text \<open>
  No variable set, a standard output that encodes the glyphs, both children exit 0
  with readable output, both files exist, the summary is \<open>summary_pass\<close>.
\<close>

definition world_pass :: world where
  "world_pass =
     \<lparr>environ = (\<lambda>name. None),
      stdout_encodes = True,
      spawn = (\<lambda>cmd. Exited 0 None),
      path_exists = (\<lambda>path. True),
      json_load = (\<lambda>path. Inr summary_pass)\<rparr>"

text \<open>Variations of it, one per situation the properties below talk about.\<close>

definition world_skip :: world where
  "world_skip =
     world_pass
       \<lparr>environ := (\<lambda>name. if name = ''SKIP_PRE_PUSH'' then Some ''1'' else None),
        spawn := (\<lambda>cmd. Exited 1 None)\<rparr>"

definition world_truthy :: world where
  "world_truthy =
     world_pass
       \<lparr>environ := (\<lambda>name. if name = ''SKIP_HOOKS'' then Some ''true''
                            else if name = ''SKIP_PRE_PUSH'' then Some ''yes'' else None)\<rparr>"

definition world_tests_fail :: world where
  "world_tests_fail = world_pass\<lparr>spawn := (\<lambda>cmd. Exited 1 None)\<rparr>"

definition world_no_launch :: world where
  "world_no_launch = world_pass\<lparr>spawn := (\<lambda>cmd. NotStarted FileNotFoundError)\<rparr>"

definition world_no_summary :: world where
  "world_no_summary = world_pass\<lparr>path_exists := (\<lambda>path. False)\<rparr>"

definition world_lines_65 :: world where
  "world_lines_65 = world_pass\<lparr>json_load := (\<lambda>path. Inr summary_lines_65)\<rparr>"

definition world_broken :: world where
  "world_broken = world_pass\<lparr>json_load := (\<lambda>path. Inr summary_broken)\<rparr>"

text \<open>
  \<^verbatim>\<open>{"total": {"lines": {"pct": 2^1024 written out}, "statements": {"pct": 71},
             "functions": {"pct": 66}, "branches": {"pct": 61}}}\<close>
\<close>

definition summary_huge :: json where
  "summary_huge =
     JObj [(''total'',
       JObj [(''lines'', JObj [(''pct'', JInt (2 ^ 1024))]),
             (''statements'', JObj [(''pct'', JInt 71)]),
             (''functions'', JObj [(''pct'', JInt 66)]),
             (''branches'', JObj [(''pct'', JInt 61)])])]"

definition world_huge :: world where
  "world_huge = world_pass\<lparr>json_load := (\<lambda>path. Inr summary_huge)\<rparr>"

text \<open>
  The runs with a standard output that cannot encode the glyphs
  (\<^verbatim>\<open>PYTHONIOENCODING=ascii\<close>): one with the bypass set, one with the two variables
  set to \<^verbatim>\<open>"true"\<close> and \<^verbatim>\<open>"yes"\<close>.
\<close>

definition world_skip_ascii :: world where
  "world_skip_ascii = world_skip\<lparr>stdout_encodes := False\<rparr>"

definition world_truthy_ascii :: world where
  "world_truthy_ascii = world_truthy\<lparr>stdout_encodes := False\<rparr>"

text \<open>
  The test child exits with status 0 and leaves the passing summary, but its captured
  output does not decode.
\<close>

definition world_undecodable :: world where
  "world_undecodable =
     world_pass\<lparr>spawn := (\<lambda>cmd. Exited 0 (Some UnicodeDecodeError))\<rparr>"

section \<open>Properties\<close>

subsection \<open>Auxiliary facts\<close>

lemmas threshold_defs =
  LINES_THRESHOLD_def STATEMENTS_THRESHOLD_def FUNCTIONS_THRESHOLD_def BRANCHES_THRESHOLD_def

lemma subprocess_run_returns:
  "subprocess_run w cmd = Inr rc \<longleftrightarrow> spawn w cmd = Exited rc None"
  by (simp add: subprocess_run_def split: child.split option.split)

lemma subprocess_run_raises:
  "subprocess_run w cmd = Inl e \<longleftrightarrow>
     spawn w cmd = NotStarted e \<or> (\<exists>rc. spawn w cmd = Exited rc (Some e))"
  by (simp add: subprocess_run_def split: child.split option.split)

lemma run_tests_pass:
  "subprocess_run w test_command = Inr 0 \<Longrightarrow> run_tests w = ([Run test_command], None)"
  by (simp add: run_tests_def)

lemma run_tests_nonzero:
  "subprocess_run w test_command = Inr rc \<Longrightarrow> rc \<noteq> 0 \<Longrightarrow>
   run_tests w =
     ([Run test_command, Print TestsFailedNoVerify, Print OrSetSkipPrePush], Some 1)"
  by (simp add: run_tests_def)

lemma run_tests_raises:
  "subprocess_run w test_command = Inl e \<Longrightarrow>
   run_tests w = ([Run test_command, Print (ErrorRunningTests e)], Some 1)"
  by (simp add: run_tests_def)

lemma check_thresholds_flag: "snd (check_thresholds cov) = thresholds_met cov"
  by (simp add: check_thresholds_def check_def thresholds_met_def)

text \<open>A \<^verbatim>\<open>nan\<close> or \<^verbatim>\<open>inf\<close> metric is below no threshold.\<close>

lemma nan_inf_not_below: "\<not> num_lt (PyFloat NaN) t" "\<not> num_lt (PyFloat PosInf) t"
  by simp_all

lemma check_thresholds_lines:
  "fst (check_thresholds cov) =
     [threshold_line Lines (lines_cov cov) LINES_THRESHOLD,
      threshold_line Statements (statements_cov cov) STATEMENTS_THRESHOLD,
      threshold_line Functions (functions_cov cov) FUNCTIONS_THRESHOLD,
      threshold_line Branches (branches_cov cov) BRANCHES_THRESHOLD]"
  by (simp add: check_thresholds_def check_def threshold_line_def)

lemma is_threshold_line_threshold_line [simp]: "is_threshold_line (threshold_line m v t)"
  by (simp add: threshold_line_def)

lemma read_coverage_no_lines: "filter is_threshold_line (fst (read_coverage w)) = []"
  by (simp add: read_coverage_def split: sum.split)

lemma upload_coverage_no_lines: "filter is_threshold_line (upload_coverage w) = []"
  by (simp add: upload_coverage_def split: sum.split)

lemma final_result_no_lines: "filter is_threshold_line (fst (final_result b)) = []"
  by (simp add: final_result_def)

text \<open>A run on a standard output that cannot encode the glyphs.\<close>

lemma main_no_stdout:
  assumes "\<not> stdout_encodes w"
  shows "main w = ([Traceback UnicodeEncodeError], 1)"
  using assms by (simp add: main_def print_first_def)

text \<open>A run that gets past the test stage, written out.\<close>

lemma main_past_tests:
  assumes "\<not> skip_requested w" and "subprocess_run w test_command = Inr 0"
    and "stdout_encodes w"
  shows "main w =
     ([Print RunningGates, Print RunningTests, Run test_command, Print CheckingThresholds]
        @ fst (read_coverage w)
        @ fst (check_thresholds (snd (read_coverage w)))
        @ upload_coverage w
        @ fst (final_result (thresholds_met (snd (read_coverage w)))),
      if thresholds_met (snd (read_coverage w)) then 0 else 1)"
proof -
  have code: "snd (final_result b) = (if b then 0 else 1)" for b
    by (simp add: final_result_def)
  show ?thesis
    using assms
    by (simp add: main_def print_first_def run_tests_pass split: prod.split)
       (metis check_thresholds_flag code fst_conv snd_conv)
qed

text \<open>The small integers of the examples convert exactly.\<close>

lemma bit_length_examples:
  "bit_length 61 = 6" "bit_length 65 = 7" "bit_length 66 = 7"
  "bit_length 71 = 7" "bit_length 75 = 7"
  by (simp_all add: bit_length.simps)

lemma float_of_int_examples:
  "float_of_int 61 = Inr (Finite 61)"
  "float_of_int 65 = Inr (Finite 65)"
  "float_of_int 66 = Inr (Finite 66)"
  "float_of_int 71 = Inr (Finite 71)"
  "float_of_int 75 = Inr (Finite 75)"
  by (simp_all add: float_of_int_def round_double_def floor_log2_def round_half_even_def
      ipow_def bit_length_examples Let_def)

lemma safe_float_examples:
  "safe_float (JInt 61) = Inr (Finite 61)"
  "safe_float (JInt 65) = Inr (Finite 65)"
  "safe_float (JInt 66) = Inr (Finite 66)"
  "safe_float (JInt 71) = Inr (Finite 71)"
  "safe_float (JInt 75) = Inr (Finite 75)"
  by (simp_all add: safe_float_def safe_float_default_def float_of_int_examples)

lemma parse_summary_pass:
  "parse_summary world_pass =
     Inr \<lparr>lines_cov = PyFloat (Finite 75), statements_cov = PyFloat (Finite 71),
          functions_cov = PyFloat (Finite 66), branches_cov = PyFloat (Finite 61)\<rparr>"
  by (simp add: parse_summary_def world_pass_def summary_pass_def and_then_def get_pct_def
      safe_float_examples)

lemma parse_summary_lines_65:
  "parse_summary world_lines_65 =
     Inr \<lparr>lines_cov = PyFloat (Finite 65), statements_cov = PyFloat (Finite 71),
          functions_cov = PyFloat (Finite 66), branches_cov = PyFloat (Finite 61)\<rparr>"
  by (simp add: parse_summary_def world_lines_65_def summary_lines_65_def and_then_def
      get_pct_def safe_float_examples)

lemma parse_summary_broken: "parse_summary world_broken = Inl AttributeError"
  by (simp add: parse_summary_def world_broken_def summary_broken_def and_then_def
      get_pct_def)

lemma read_coverage_pass:
  "snd (read_coverage world_pass) =
     \<lparr>lines_cov = PyFloat (Finite 75), statements_cov = PyFloat (Finite 71),
      functions_cov = PyFloat (Finite 66), branches_cov = PyFloat (Finite 61)\<rparr>"
  by (simp add: read_coverage_def parse_summary_pass) (simp add: world_pass_def)

lemma read_coverage_lines_65:
  "snd (read_coverage world_lines_65) =
     \<lparr>lines_cov = PyFloat (Finite 65), statements_cov = PyFloat (Finite 71),
      functions_cov = PyFloat (Finite 66), branches_cov = PyFloat (Finite 61)\<rparr>"
  by (simp add: read_coverage_def parse_summary_lines_65)
     (simp add: world_lines_65_def world_pass_def)

lemma no_skip_examples:
  "\<not> skip_requested world_pass" "\<not> skip_requested world_lines_65"
  "\<not> skip_requested world_tests_fail" "\<not> skip_requested world_no_launch"
  "\<not> skip_requested world_no_summary" "\<not> skip_requested world_broken"
  "\<not> skip_requested world_undecodable"
  by (simp_all add: skip_requested_def world_pass_def world_lines_65_def
      world_tests_fail_def world_no_launch_def world_no_summary_def world_broken_def
      world_undecodable_def)

lemma tests_pass_examples:
  "subprocess_run world_pass test_command = Inr 0"
  "subprocess_run world_lines_65 test_command = Inr 0"
  "subprocess_run world_no_summary test_command = Inr 0"
  "subprocess_run world_broken test_command = Inr 0"
  by (simp_all add: subprocess_run_def world_pass_def world_lines_65_def
      world_no_summary_def world_broken_def)

lemma stdout_examples:
  "stdout_encodes world_pass" "stdout_encodes world_lines_65"
  "stdout_encodes world_tests_fail" "stdout_encodes world_no_launch"
  "stdout_encodes world_no_summary" "stdout_encodes world_broken"
  "stdout_encodes world_skip" "stdout_encodes world_truthy"
  "stdout_encodes world_undecodable"
  "\<not> stdout_encodes world_skip_ascii" "\<not> stdout_encodes world_truthy_ascii"
  by (simp_all add: world_pass_def world_lines_65_def world_tests_fail_def
      world_no_launch_def world_no_summary_def world_broken_def world_skip_def
      world_truthy_def world_undecodable_def world_skip_ascii_def world_truthy_ascii_def)

subsection \<open>The bypass\<close>

text \<open>
  C2. Whenever \<^verbatim>\<open>SKIP_HOOKS\<close> or \<^verbatim>\<open>SKIP_PRE_PUSH\<close> equals the string \<^verbatim>\<open>"1"\<close>, no
  other stage runs: no child process is started, no file is looked for or opened,
  nothing is uploaded. On a standard output that can encode the notice, the run consists
  of printing the skip notice and exiting with code 0. On one that cannot, the
  \<^verbatim>\<open>print\<close> of line 13 raises, no notice is printed and the exit code is 1.
\<close>

theorem bypass_short_circuits:
  assumes "environ w ''SKIP_HOOKS'' = Some ''1'' \<or> environ w ''SKIP_PRE_PUSH'' = Some ''1''"
  shows "main w =
       (if stdout_encodes w then ([Print SkipNotice], 0)
        else ([Traceback UnicodeEncodeError], 1))
     \<and> Run cmd \<notin> set (fst (main w))
     \<and> Exists path \<notin> set (fst (main w))
     \<and> Open path \<notin> set (fst (main w))"
  using assms by (simp add: main_def skip_requested_def print_first_def)

theorem bypass_short_circuits_witness:
  "(environ world_skip ''SKIP_HOOKS'' = Some ''1''
      \<or> environ world_skip ''SKIP_PRE_PUSH'' = Some ''1'')
   \<and> stdout_encodes world_skip
   \<and> main world_skip = ([Print SkipNotice], 0)"
proof -
  have h: "environ world_skip ''SKIP_HOOKS'' = Some ''1''
      \<or> environ world_skip ''SKIP_PRE_PUSH'' = Some ''1''"
    by (simp add: world_skip_def world_pass_def)
  show ?thesis
    using h bypass_short_circuits [OF h] stdout_examples(7) by simp
qed

text \<open>
  With \<^verbatim>\<open>SKIP_PRE_PUSH=1\<close> and a standard output that cannot encode the notice, the
  run prints no notice and exits with code 1.
\<close>

theorem bypass_short_circuits_counterexample:
  "environ world_skip_ascii ''SKIP_PRE_PUSH'' = Some ''1''
   \<and> Print SkipNotice \<notin> set (fst (main world_skip_ascii))
   \<and> snd (main world_skip_ascii) = 1"
proof -
  have "environ world_skip_ascii ''SKIP_PRE_PUSH'' = Some ''1''"
    by (simp add: world_skip_ascii_def world_skip_def world_pass_def)
  then show ?thesis
    by (simp add: main_no_stdout [OF stdout_examples(10)])
qed

text \<open>
  C9. The bypass matches the exact string \<^verbatim>\<open>"1"\<close> only. When neither variable has
  that value (it is unset, or holds anything else, such as \<^verbatim>\<open>"true"\<close> or
  \<^verbatim>\<open>"yes"\<close>), the bypass does not trigger: no skip notice is printed. On a standard
  output that can encode line 16 the run goes on to the test stage: it starts with the
  two announcements and the launch of the test command. On one that cannot, the run
  ends at line 16 with exit code 1 and the test command is not started.
\<close>

theorem bypass_only_exact_one:
  assumes "environ w ''SKIP_HOOKS'' \<noteq> Some ''1''"
    and "environ w ''SKIP_PRE_PUSH'' \<noteq> Some ''1''"
  shows "\<not> skip_requested w
     \<and> Print SkipNotice \<notin> set (fst (main w))
     \<and> (if stdout_encodes w then
          take 3 (fst (main w)) = [Print RunningGates, Print RunningTests, Run test_command]
        else main w = ([Traceback UnicodeEncodeError], 1))"
proof -
  from assms have nskip: "\<not> skip_requested w"
    by (simp add: skip_requested_def)
  have "Print SkipNotice \<notin> set (fst (main w))
     \<and> (if stdout_encodes w then
          take 3 (fst (main w)) = [Print RunningGates, Print RunningTests, Run test_command]
        else main w = ([Traceback UnicodeEncodeError], 1))"
  proof (cases "stdout_encodes w")
    case False
    then show ?thesis
      by (simp add: main_no_stdout)
  next
    case enc: True
    show ?thesis
    proof (cases "subprocess_run w test_command")
      case (Inl e)
      with nskip enc show ?thesis
        by (simp add: main_def print_first_def run_tests_raises)
    next
      case (Inr rc)
      show ?thesis
      proof (cases "rc = 0")
        case True
        with Inr have ok: "subprocess_run w test_command = Inr 0"
          by simp
        show ?thesis
          using enc
          by (auto simp add: main_past_tests [OF nskip ok enc] read_coverage_def
              check_thresholds_lines threshold_line_def upload_coverage_def final_result_def
              split: sum.splits if_splits)
      next
        case False
        with nskip enc Inr show ?thesis
          by (simp add: main_def print_first_def run_tests_nonzero)
      qed
    qed
  qed
  with nskip show ?thesis
    by simp
qed

theorem bypass_only_exact_one_witness:
  "environ world_truthy ''SKIP_HOOKS'' = Some ''true''
   \<and> environ world_truthy ''SKIP_PRE_PUSH'' = Some ''yes''
   \<and> environ world_pass ''SKIP_HOOKS'' = None
   \<and> environ world_pass ''SKIP_PRE_PUSH'' = None
   \<and> Run test_command \<in> set (take 3 (fst (main world_truthy)))
   \<and> Run test_command \<in> set (take 3 (fst (main world_pass)))"
proof -
  have t: "environ world_truthy ''SKIP_HOOKS'' = Some ''true''"
      "environ world_truthy ''SKIP_PRE_PUSH'' = Some ''yes''"
    by (simp_all add: world_truthy_def world_pass_def)
  have p: "environ world_pass ''SKIP_HOOKS'' = None"
      "environ world_pass ''SKIP_PRE_PUSH'' = None"
    by (simp_all add: world_pass_def)
  have "take 3 (fst (main world_truthy))
      = [Print RunningGates, Print RunningTests, Run test_command]"
    using bypass_only_exact_one [of world_truthy] t stdout_examples(8) by simp
  moreover have "take 3 (fst (main world_pass))
      = [Print RunningGates, Print RunningTests, Run test_command]"
    using bypass_only_exact_one [of world_pass] p stdout_examples(1) by simp
  ultimately show ?thesis
    using t p by simp
qed

text \<open>
  With \<^verbatim>\<open>SKIP_HOOKS=true\<close>, \<^verbatim>\<open>SKIP_PRE_PUSH=yes\<close> and a standard output that cannot
  encode line 16, the test command is not started.
\<close>

theorem bypass_only_exact_one_counterexample:
  "environ world_truthy_ascii ''SKIP_HOOKS'' = Some ''true''
   \<and> environ world_truthy_ascii ''SKIP_PRE_PUSH'' = Some ''yes''
   \<and> Run test_command \<notin> set (fst (main world_truthy_ascii))
   \<and> snd (main world_truthy_ascii) = 1"
proof -
  have "environ world_truthy_ascii ''SKIP_HOOKS'' = Some ''true''"
      "environ world_truthy_ascii ''SKIP_PRE_PUSH'' = Some ''yes''"
    by (simp_all add: world_truthy_ascii_def world_truthy_def world_pass_def)
  then show ?thesis
    by (simp add: main_no_stdout [OF stdout_examples(11)])
qed

subsection \<open>The test stage\<close>



subsection \<open>Coverage ingestion\<close>

text \<open>
  C6. In a run without bypass whose tests pass, if
  \<^verbatim>\<open>coverage/coverage-summary.json\<close> does not exist, the four metrics are 0, each of
  the four threshold lines is the failing one, and the exit code is 1. (The lines are
  printed in a run that could print line 16; one that could not ends there.)
\<close>

theorem missing_summary_fails:
  assumes "\<not> skip_requested w"
    and "subprocess_run w test_command = Inr 0"
    and "\<not> path_exists w summary_path"
  shows "snd (read_coverage w) = zero_coverage
     \<and> filter is_threshold_line (fst (main w)) =
         (if stdout_encodes w then
            [Print (CoverageBelow Lines (PyInt 0) 70),
             Print (CoverageBelow Statements (PyInt 0) 70),
             Print (CoverageBelow Functions (PyInt 0) 65),
             Print (CoverageBelow Branches (PyInt 0) 60)]
          else [])
     \<and> Open summary_path \<notin> set (fst (main w))
     \<and> snd (main w) = 1"
proof -
  have cov: "read_coverage w =
      ([Exists summary_path, Print NoCoverageSummary, Print ContinueMinimalChecks],
       zero_coverage)"
    using assms(3) by (simp add: read_coverage_def)
  show ?thesis
  proof (cases "stdout_encodes w")
    case False
    then show ?thesis
      by (simp add: main_no_stdout cov)
  next
    case enc: True
    have unmet: "\<not> thresholds_met zero_coverage"
      by (simp add: thresholds_met_def zero_coverage_def threshold_defs)
    have lines: "fst (check_thresholds zero_coverage) =
        [Print (CoverageBelow Lines (PyInt 0) 70),
         Print (CoverageBelow Statements (PyInt 0) 70),
         Print (CoverageBelow Functions (PyInt 0) 65),
         Print (CoverageBelow Branches (PyInt 0) 60)]"
      by (simp add: check_thresholds_lines threshold_line_def zero_coverage_def
          threshold_defs)
    have "Open summary_path \<notin> set (upload_coverage w)"
      by (simp add: upload_coverage_def split: sum.split)
    then show ?thesis
      using unmet enc
      by (simp add: main_past_tests [OF assms(1,2) enc] cov lines upload_coverage_no_lines
          final_result_def)
  qed
qed

theorem missing_summary_fails_witness:
  "\<not> path_exists world_no_summary summary_path
   \<and> snd (read_coverage world_no_summary) = zero_coverage
   \<and> filter is_threshold_line (fst (main world_no_summary)) =
       [Print (CoverageBelow Lines (PyInt 0) 70),
        Print (CoverageBelow Statements (PyInt 0) 70),
        Print (CoverageBelow Functions (PyInt 0) 65),
        Print (CoverageBelow Branches (PyInt 0) 60)]
   \<and> snd (main world_no_summary) = 1"
proof -
  have h: "\<not> path_exists world_no_summary summary_path"
    by (simp add: world_no_summary_def)
  show ?thesis
    using missing_summary_fails [OF no_skip_examples(5) tests_pass_examples(3) h] h
      stdout_examples(5)
    by simp
qed

text \<open>
  C10. Recovery is all or nothing. If anything raises while the summary is opened,
  decoded or its values are extracted and converted, the handler sets all four metrics
  to 0 together; what had been extracted before the error is discarded. The threshold
  stage then sees the four zeros.
\<close>

theorem ingestion_all_or_nothing:
  assumes "path_exists w summary_path"
    and "parse_summary w = Inl e"
  shows "read_coverage w =
       ([Exists summary_path, Open summary_path,
         Print (ErrorParsingCoverage e), Print ContinueMinimalChecks],
        \<lparr>lines_cov = PyInt 0, statements_cov = PyInt 0,
         functions_cov = PyInt 0, branches_cov = PyInt 0\<rparr>)
     \<and> fst (check_thresholds (snd (read_coverage w))) =
         [Print (CoverageBelow Lines (PyInt 0) 70),
          Print (CoverageBelow Statements (PyInt 0) 70),
          Print (CoverageBelow Functions (PyInt 0) 65),
          Print (CoverageBelow Branches (PyInt 0) 60)]"
  using assms
  by (simp add: read_coverage_def zero_coverage_def check_thresholds_lines
      threshold_line_def threshold_defs)

text \<open>
  In \<open>world_broken\<close> the lines percentage is there and converts to 75.0, the entry of
  \<^verbatim>\<open>statements\<close> is not an object, and the lines metric that reaches the threshold
  stage is 0.
\<close>

theorem ingestion_all_or_nothing_witness:
  "path_exists world_broken summary_path
   \<and> and_then (json_load world_broken summary_path)
        (\<lambda>d. and_then (dict_get d ''total'' (JObj []))
          (\<lambda>t. and_then (get_pct t ''lines'') safe_float)) = Inr (Finite 75)
   \<and> parse_summary world_broken = Inl AttributeError
   \<and> lines_cov (snd (read_coverage world_broken)) = PyInt 0
   \<and> snd (read_coverage world_broken) = zero_coverage"
proof -
  have h: "path_exists world_broken summary_path"
    by (simp add: world_broken_def world_pass_def)
  have l: "and_then (json_load world_broken summary_path)
        (\<lambda>d. and_then (dict_get d ''total'' (JObj []))
          (\<lambda>t. and_then (get_pct t ''lines'') safe_float)) = Inr (Finite 75)"
    by (simp add: world_broken_def summary_broken_def and_then_def get_pct_def
        safe_float_examples)
  show ?thesis
    using ingestion_all_or_nothing [OF h parse_summary_broken] h l parse_summary_broken
    by (simp add: zero_coverage_def)
qed

subsection \<open>Threshold evaluation\<close>

text \<open>
  C3. The thresholds are 70 for lines, 70 for statements, 65 for functions and 60 for
  branches, and a metric fails exactly when its value is strictly less than its
  threshold: the failing line for a metric is printed if and only if the comparison
  \<^verbatim>\<open>value < threshold\<close> holds, the passing line if and only if it does not, and the
  flag is cleared if and only if some comparison holds. On finite values the comparison
  is the order of the numbers. A value equal to its threshold passes: with 70.0, 70.0,
  65.0 and 60.0 the four passing lines are printed and the flag stays set.
\<close>

theorem threshold_comparison_strict:
  "(Print (CoverageBelow Lines (lines_cov cov) 70) \<in> set (fst (check_thresholds cov))
      \<longleftrightarrow> num_lt (lines_cov cov) 70)
   \<and> (Print (CoverageOk Lines (lines_cov cov) 70) \<in> set (fst (check_thresholds cov))
      \<longleftrightarrow> \<not> num_lt (lines_cov cov) 70)
   \<and> (Print (CoverageBelow Statements (statements_cov cov) 70) \<in> set (fst (check_thresholds cov))
      \<longleftrightarrow> num_lt (statements_cov cov) 70)
   \<and> (Print (CoverageOk Statements (statements_cov cov) 70) \<in> set (fst (check_thresholds cov))
      \<longleftrightarrow> \<not> num_lt (statements_cov cov) 70)
   \<and> (Print (CoverageBelow Functions (functions_cov cov) 65) \<in> set (fst (check_thresholds cov))
      \<longleftrightarrow> num_lt (functions_cov cov) 65)
   \<and> (Print (CoverageOk Functions (functions_cov cov) 65) \<in> set (fst (check_thresholds cov))
      \<longleftrightarrow> \<not> num_lt (functions_cov cov) 65)
   \<and> (Print (CoverageBelow Branches (branches_cov cov) 60) \<in> set (fst (check_thresholds cov))
      \<longleftrightarrow> num_lt (branches_cov cov) 60)
   \<and> (Print (CoverageOk Branches (branches_cov cov) 60) \<in> set (fst (check_thresholds cov))
      \<longleftrightarrow> \<not> num_lt (branches_cov cov) 60)
   \<and> (snd (check_thresholds cov) \<longleftrightarrow>
        \<not> (num_lt (lines_cov cov) 70 \<or> num_lt (statements_cov cov) 70
           \<or> num_lt (functions_cov cov) 65 \<or> num_lt (branches_cov cov) 60))
   \<and> (num_lt (PyFloat (Finite q)) t \<longleftrightarrow> q < of_int t)
   \<and> (num_lt (PyInt i) t \<longleftrightarrow> i < t)
   \<and> check_thresholds
        \<lparr>lines_cov = PyFloat (Finite 70), statements_cov = PyFloat (Finite 70),
         functions_cov = PyFloat (Finite 65), branches_cov = PyFloat (Finite 60)\<rparr> =
       ([Print (CoverageOk Lines (PyFloat (Finite 70)) 70),
         Print (CoverageOk Statements (PyFloat (Finite 70)) 70),
         Print (CoverageOk Functions (PyFloat (Finite 65)) 65),
         Print (CoverageOk Branches (PyFloat (Finite 60)) 60)], True)"
proof -
  have lines: "fst (check_thresholds c) =
      [threshold_line Lines (lines_cov c) 70,
       threshold_line Statements (statements_cov c) 70,
       threshold_line Functions (functions_cov c) 65,
       threshold_line Branches (branches_cov c) 60]" for c
    by (simp add: check_thresholds_lines threshold_defs)
  have flag: "snd (check_thresholds c) \<longleftrightarrow>
      \<not> (num_lt (lines_cov c) 70 \<or> num_lt (statements_cov c) 70
         \<or> num_lt (functions_cov c) 65 \<or> num_lt (branches_cov c) 60)" for c
    by (simp add: check_thresholds_flag thresholds_met_def threshold_defs)
  have members: "?thesis" if "True"
    unfolding lines flag prod_eq_iff
    by (simp add: threshold_line_def)
  then show ?thesis
    by simp
qed

theorem threshold_comparison_strict_witness:
  "Print (CoverageBelow Lines (PyFloat (Finite 65)) 70)
      \<in> set (fst (check_thresholds (snd (read_coverage world_lines_65))))
   \<and> Print (CoverageOk Lines (PyFloat (Finite 75)) 70)
      \<in> set (fst (check_thresholds (snd (read_coverage world_pass))))
   \<and> \<not> snd (check_thresholds (snd (read_coverage world_lines_65)))
   \<and> snd (check_thresholds (snd (read_coverage world_pass)))"
  using threshold_comparison_strict [of "snd (read_coverage world_lines_65)"]
    threshold_comparison_strict [of "snd (read_coverage world_pass)"]
  by (simp add: read_coverage_pass read_coverage_lines_65)

text \<open>
  C8. In every run that reaches the threshold stage (no bypass, line 16 printed, tests
  passed) the threshold lines of the whole trace are exactly four, one per metric in the
  order lines, statements, functions, branches, each showing the metric's actual value
  and its threshold, whichever of them pass or fail; so each metric is printed exactly
  once. (A run that cannot print line 16 ends there and prints no threshold line.)
\<close>

theorem each_metric_printed_once:
  assumes "\<not> skip_requested w"
    and "subprocess_run w test_command = Inr 0"
  shows "filter is_threshold_line (fst (main w)) =
       (if stdout_encodes w then
          [threshold_line Lines (lines_cov (snd (read_coverage w))) 70,
           threshold_line Statements (statements_cov (snd (read_coverage w))) 70,
           threshold_line Functions (functions_cov (snd (read_coverage w))) 65,
           threshold_line Branches (branches_cov (snd (read_coverage w))) 60]
        else [])
     \<and> length (filter (\<lambda>ev. line_metric ev = Some m) (fst (main w)))
         = (if stdout_encodes w then 1 else 0)"
proof (cases "stdout_encodes w")
  case False
  then show ?thesis
    by (simp add: main_no_stdout)
next
  case enc: True
  let ?c = "snd (read_coverage w)"
  let ?ls = "[threshold_line Lines (lines_cov ?c) 70,
        threshold_line Statements (statements_cov ?c) 70,
        threshold_line Functions (functions_cov ?c) 65,
        threshold_line Branches (branches_cov ?c) 60]"
  have stage: "fst (check_thresholds ?c) = ?ls"
    by (simp add: check_thresholds_lines threshold_defs)
  have all_lines: "filter is_threshold_line ?ls = ?ls"
    by simp
  have lines: "filter is_threshold_line (fst (main w)) = ?ls"
    unfolding main_past_tests [OF assms enc] fst_conv filter_append stage all_lines
      read_coverage_no_lines upload_coverage_no_lines final_result_no_lines
    by simp
  have sub: "(is_threshold_line ev \<and> line_metric ev = Some m) = (line_metric ev = Some m)"
    for ev
    by (cases ev rule: line_metric.cases) simp_all
  have "filter (\<lambda>ev. line_metric ev = Some m) (fst (main w))
      = filter (\<lambda>ev. line_metric ev = Some m) (filter is_threshold_line (fst (main w)))"
    by (simp add: sub)
  also have "\<dots> = filter (\<lambda>ev. line_metric ev = Some m) ?ls"
    by (simp only: lines)
  finally have "length (filter (\<lambda>ev. line_metric ev = Some m) (fst (main w))) = 1"
    by (cases m) (simp_all add: threshold_line_def)
  with lines enc show ?thesis
    by simp
qed

theorem each_metric_printed_once_witness:
  "filter is_threshold_line (fst (main world_lines_65)) =
     [Print (CoverageBelow Lines (PyFloat (Finite 65)) 70),
      Print (CoverageOk Statements (PyFloat (Finite 71)) 70),
      Print (CoverageOk Functions (PyFloat (Finite 66)) 65),
      Print (CoverageOk Branches (PyFloat (Finite 61)) 60)]"
  using each_metric_printed_once [OF no_skip_examples(2) tests_pass_examples(2)]
    stdout_examples(2)
  by (simp add: read_coverage_lines_65 threshold_line_def)

subsection \<open>The upload and the exit code\<close>

text \<open>
  C7. The upload stage has no influence on the exit code. In a run that reaches it (no
  bypass, line 16 printed, tests passed), the exit code is 0 if the flag of the
  threshold stage is set and 1 otherwise. Changing whether \<^verbatim>\<open>coverage/lcov.info\<close>
  exists (\<open>b\<close>) and what becomes of the upload command (\<open>c\<close>: not started, any exit
  status, unreadable output) leaves the exit code of any run as it is. The stage itself
  announces the upload, looks for the file, and then either starts the command,
  followed by at most one warning, or prints that the upload is skipped.
\<close>

theorem upload_never_changes_exit_code:
  assumes "\<not> skip_requested w"
    and "subprocess_run w test_command = Inr 0"
  shows "snd (main w) =
       (if stdout_encodes w then
          (if snd (check_thresholds (snd (read_coverage w))) then 0 else 1)
        else 1)
     \<and> snd (main (w\<lparr>path_exists := (path_exists w)(lcov_path := b),
                     spawn := (spawn w)(upload_command := c)\<rparr>))
         = snd (main w)
     \<and> upload_coverage (w\<lparr>path_exists := (path_exists w)(lcov_path := b),
                          spawn := (spawn w)(upload_command := c)\<rparr>)
         = [Print UploadingCoverage, Exists lcov_path]
           @ (if b then
                Run upload_command #
                (case c of
                   Exited rc None \<Rightarrow> if rc \<noteq> 0 then [Print UploadFailed] else []
                 | Exited rc (Some e) \<Rightarrow> [Print (UploadError e)]
                 | NotStarted e \<Rightarrow> [Print (UploadError e)])
              else [Print NoLcovSkipUpload])"
proof -
  let ?w' = "w\<lparr>path_exists := (path_exists w)(lcov_path := b),
               spawn := (spawn w)(upload_command := c)\<rparr>"
  have cmds: "test_command \<noteq> upload_command"
    by (simp add: test_command_def upload_command_def)
  have paths: "summary_path \<noteq> lcov_path"
    by (simp add: summary_path_def lcov_path_def)
  have skip: "\<not> skip_requested ?w'"
    using assms(1) by (simp add: skip_requested_def)
  have tests: "subprocess_run ?w' test_command = Inr 0"
    using assms(2) cmds by (simp add: subprocess_run_def)
  have "parse_summary ?w' = parse_summary w"
    by (simp add: parse_summary_def)
  then have cov: "read_coverage ?w' = read_coverage w"
    using paths by (simp add: read_coverage_def)
  have up: "upload_coverage ?w' = [Print UploadingCoverage, Exists lcov_path]
           @ (if b then
                Run upload_command #
                (case c of
                   Exited rc None \<Rightarrow> if rc \<noteq> 0 then [Print UploadFailed] else []
                 | Exited rc (Some e) \<Rightarrow> [Print (UploadError e)]
                 | NotStarted e \<Rightarrow> [Print (UploadError e)])
              else [Print NoLcovSkipUpload])"
    by (simp add: upload_coverage_def subprocess_run_def split: child.split option.split)
  show ?thesis
  proof (cases "stdout_encodes w")
    case False
    then have "\<not> stdout_encodes ?w'"
      by simp
    then have "main ?w' = ([Traceback UnicodeEncodeError], 1)"
      by (rule main_no_stdout)
    moreover from False have "main w = ([Traceback UnicodeEncodeError], 1)"
      by (rule main_no_stdout)
    ultimately show ?thesis
      using False up by simp
  next
    case enc: True
    then have enc': "stdout_encodes ?w'"
      by simp
    have code: "snd (main w) =
        (if snd (check_thresholds (snd (read_coverage w))) then 0 else 1)"
      by (simp add: main_past_tests [OF assms enc] check_thresholds_flag)
    have same: "snd (main ?w') = snd (main w)"
      unfolding main_past_tests [OF assms enc] main_past_tests [OF skip tests enc'] cov
      by simp
    from code same up enc show ?thesis
      by simp
  qed
qed

theorem upload_never_changes_exit_code_witness:
  "snd (main world_pass) = 0
   \<and> snd (main (world_pass\<lparr>path_exists := (path_exists world_pass)(lcov_path := False),
        spawn := (spawn world_pass)(upload_command := Exited 1 None)\<rparr>)) = 0
   \<and> snd (main (world_pass\<lparr>path_exists := (path_exists world_pass)(lcov_path := True),
        spawn := (spawn world_pass)(upload_command := Exited 1 None)\<rparr>)) = 0
   \<and> snd (main (world_pass\<lparr>path_exists := (path_exists world_pass)(lcov_path := True),
        spawn := (spawn world_pass)
          (upload_command := NotStarted FileNotFoundError)\<rparr>)) = 0"
proof -
  have "snd (check_thresholds (snd (read_coverage world_pass)))"
    by (simp add: read_coverage_pass check_thresholds_flag thresholds_met_def threshold_defs)
  then show ?thesis
    using upload_never_changes_exit_code [OF no_skip_examples(1) tests_pass_examples(1),
        where b = False and c = "Exited 1 None"]
      upload_never_changes_exit_code [OF no_skip_examples(1) tests_pass_examples(1),
        where b = True and c = "Exited 1 None"]
      upload_never_changes_exit_code [OF no_skip_examples(1) tests_pass_examples(1),
        where b = True and c = "NotStarted FileNotFoundError"]
      stdout_examples(1)
    by simp
qed

text \<open>
  C1. The exit code is 0 or 1. It is 0 exactly when the standard output can encode the
  first printed line and either one of the two bypass variables equals \<^verbatim>\<open>"1"\<close>, or
  \<^verbatim>\<open>subprocess.run\<close> returns for the test command with return code 0 (the child
  exits with status 0 and its captured output is read) and the four metrics meet their
  thresholds. In every other run it is 1: the first line cannot be printed, or no bypass
  is set and the test command exits with a nonzero status, or cannot be launched, or
  its output cannot be read, or some metric misses its threshold. (The test command
  runs only when no bypass is set.)
\<close>

theorem exit_code_zero_or_one:
  "(snd (main w) = 0 \<or> snd (main w) = 1)
   \<and> (snd (main w) = 0 \<longleftrightarrow>
        stdout_encodes w
        \<and> (environ w ''SKIP_HOOKS'' = Some ''1'' \<or> environ w ''SKIP_PRE_PUSH'' = Some ''1''
            \<or> (spawn w test_command = Exited 0 None
                \<and> thresholds_met (snd (read_coverage w)))))
   \<and> (snd (main w) = 1 \<longleftrightarrow>
        \<not> stdout_encodes w
        \<or> (environ w ''SKIP_HOOKS'' \<noteq> Some ''1'' \<and> environ w ''SKIP_PRE_PUSH'' \<noteq> Some ''1''
            \<and> ((\<exists>rc. spawn w test_command = Exited rc None \<and> rc \<noteq> 0)
                \<or> (\<exists>e. spawn w test_command = NotStarted e)
                \<or> (\<exists>rc e. spawn w test_command = Exited rc (Some e))
                \<or> \<not> thresholds_met (snd (read_coverage w)))))"
proof (cases "stdout_encodes w")
  case False
  then show ?thesis
    by (simp add: main_no_stdout)
next
  case enc: True
  show ?thesis
  proof (cases "skip_requested w")
    case True
    with enc have "main w = ([Print SkipNotice], 0)"
      by (simp add: main_def print_first_def)
    with True enc show ?thesis
      by (auto simp add: skip_requested_def)
  next
    case nskip: False
    then have env: "environ w ''SKIP_HOOKS'' \<noteq> Some ''1''"
        "environ w ''SKIP_PRE_PUSH'' \<noteq> Some ''1''"
      by (simp_all add: skip_requested_def)
    show ?thesis
    proof (cases "subprocess_run w test_command")
      case (Inl e)
      with nskip enc have "snd (main w) = 1"
        by (simp add: main_def print_first_def run_tests_raises)
      moreover from Inl have "spawn w test_command = NotStarted e
          \<or> (\<exists>rc. spawn w test_command = Exited rc (Some e))"
        by (simp add: subprocess_run_raises)
      ultimately show ?thesis
        using env enc by auto
    next
      case (Inr rc)
      then have sp: "spawn w test_command = Exited rc None"
        by (simp add: subprocess_run_returns)
      show ?thesis
      proof (cases "rc = 0")
        case True
        with Inr have ok: "subprocess_run w test_command = Inr 0"
          by simp
        show ?thesis
          using env enc sp True by (simp add: main_past_tests [OF nskip ok enc])
      next
        case False
        with nskip enc Inr have "snd (main w) = 1"
          by (simp add: main_def print_first_def run_tests_nonzero)
        with env enc sp False show ?thesis
          by simp
      qed
    qed
  qed
qed

theorem exit_code_zero_or_one_witness:
  "snd (main world_pass) = 0 \<and> snd (main world_skip) = 0
   \<and> snd (main world_lines_65) = 1 \<and> snd (main world_tests_fail) = 1
   \<and> snd (main world_no_launch) = 1"
proof -
  have met: "thresholds_met (snd (read_coverage world_pass))"
    by (simp add: read_coverage_pass thresholds_met_def threshold_defs)
  have unmet: "\<not> thresholds_met (snd (read_coverage world_lines_65))"
    by (simp add: read_coverage_lines_65 thresholds_met_def threshold_defs)
  have a: "snd (main world_pass) = 0"
    using exit_code_zero_or_one [of world_pass] met stdout_examples(1)
    by (simp add: world_pass_def)
  have b: "snd (main world_skip) = 0"
    using exit_code_zero_or_one [of world_skip]
    by (simp add: world_skip_def world_pass_def)
  have c: "snd (main world_lines_65) = 1"
    using exit_code_zero_or_one [of world_lines_65] unmet
    by (simp add: world_lines_65_def world_pass_def)
  have d: "snd (main world_tests_fail) = 1"
    using exit_code_zero_or_one [of world_tests_fail]
    by (simp add: world_tests_fail_def world_pass_def)
  have e: "snd (main world_no_launch) = 1"
    using exit_code_zero_or_one [of world_no_launch]
    by (simp add: world_no_launch_def world_pass_def)
  from a b c d e show ?thesis
    by simp
qed

text \<open>
  Two runs that end with exit code 1: one with \<^verbatim>\<open>SKIP_PRE_PUSH=1\<close> on a standard
  output that cannot encode the notice, and one without bypass in which the test child
  exits with status 0 and the four metrics meet their thresholds, but the child's
  output does not decode.
\<close>

theorem exit_code_zero_or_one_counterexample:
  "environ world_skip_ascii ''SKIP_PRE_PUSH'' = Some ''1''
   \<and> snd (main world_skip_ascii) = 1
   \<and> spawn world_undecodable test_command = Exited 0 (Some UnicodeDecodeError)
   \<and> thresholds_met (snd (read_coverage world_undecodable))
   \<and> snd (main world_undecodable) = 1"
proof -
  have a: "environ world_skip_ascii ''SKIP_PRE_PUSH'' = Some ''1''"
    by (simp add: world_skip_ascii_def world_skip_def world_pass_def)
  have b: "snd (main world_skip_ascii) = 1"
    by (simp add: main_no_stdout [OF stdout_examples(10)])
  have c: "spawn world_undecodable test_command = Exited 0 (Some UnicodeDecodeError)"
    by (simp add: world_undecodable_def)
  have "parse_summary world_undecodable = parse_summary world_pass"
    by (simp add: parse_summary_def world_undecodable_def)
  then have "snd (read_coverage world_undecodable) = snd (read_coverage world_pass)"
    by (simp add: read_coverage_def world_undecodable_def)
  then have d: "thresholds_met (snd (read_coverage world_undecodable))"
    by (simp add: read_coverage_pass thresholds_met_def threshold_defs)
  have "subprocess_run world_undecodable test_command = Inl UnicodeDecodeError"
    by (simp add: subprocess_run_def c)
  then have e: "snd (main world_undecodable) = 1"
    using no_skip_examples(7) stdout_examples(9)
    by (simp add: main_def print_first_def run_tests_raises)
  from a b c d e show ?thesis
    by simp
qed

subsection \<open>\<^verbatim>\<open>safe_float\<close>\<close>

text \<open>
  On the sample inputs 42, 42.5, \<^verbatim>\<open>"Unknown"\<close>, \<^verbatim>\<open>"garbage"\<close> and \<^verbatim>\<open>None\<close>
  (which is also what a missing \<^verbatim>\<open>pct\<close> key gives) the conversion returns 42.0, 42.5,
  0.0, 0.0 and 0.0.
\<close>

lemma safe_float_samples:
  "safe_float (JInt 42) = Inr (Finite 42)"
  "safe_float (JFloat (Finite (85 / 2))) = Inr (Finite (85 / 2))"
  "safe_float (JStr ''Unknown'') = Inr (Finite 0)"
  "safe_float (JStr ''garbage'') = Inr (Finite 0)"
  "safe_float JNull = Inr (Finite 0)"
  "and_then (dict_get (JObj []) ''pct'' JNull) safe_float = Inr (Finite 0)"
proof -
  have "bit_length 42 = 6"
    by (simp add: bit_length.simps)
  then show "safe_float (JInt 42) = Inr (Finite 42)"
    by (simp add: safe_float_def safe_float_default_def float_of_int_def round_double_def
        floor_log2_def round_half_even_def ipow_def Let_def)
  show "safe_float (JStr ''garbage'') = Inr (Finite 0)"
    by (simp add: safe_float_def safe_float_default_def float_of_str_def strip_def
        py_isspace_def split_sign_def to_lower_def floatnumber_def number_def digitpart_def
        is_digit_def Let_def)
qed (simp_all add: safe_float_def safe_float_default_def and_then_def)

text \<open>
  The only exception that leaves \<open>safe_float\<close> is the \<^verbatim>\<open>OverflowError\<close> of
  \<^verbatim>\<open>float\<close> on an \<^verbatim>\<open>int\<close>; on every other input it returns a float.
\<close>

lemma float_of_str_error: "float_of_str s = Inl e \<Longrightarrow> e = ValueError"
  by (auto simp add: float_of_str_def Let_def split: prod.splits option.splits if_splits)

lemma float_of_int_error: "float_of_int n = Inl e \<Longrightarrow> e = OverflowError"
  by (auto simp add: float_of_int_def split: option.splits)

lemma safe_float_raises_only_overflow:
  assumes "safe_float v = Inl e"
  shows "e = OverflowError \<and> (\<exists>n. v = JInt n \<and> float_of_int n = Inl OverflowError)"
proof (cases v)
  case (JInt n)
  with assms show ?thesis
    by (auto simp add: safe_float_def safe_float_default_def
        split: sum.splits if_splits dest: float_of_int_error)
next
  case (JStr s)
  with assms show ?thesis
    by (auto simp add: safe_float_def safe_float_default_def
        split: sum.splits if_splits dest: float_of_str_error)
qed (use assms in \<open>simp_all add: safe_float_def safe_float_default_def\<close>)

text \<open>Powers of two from \<open>2^1024\<close> on are beyond the largest double.\<close>

lemma bit_length_power2: "bit_length (2 ^ n) = int n + 1"
proof (induction n)
  case 0
  show ?case
    by (simp add: bit_length.simps [of 1] bit_length.simps [of 0])
next
  case (Suc n)
  have "bit_length (2 ^ Suc n) = 1 + bit_length (2 ^ Suc n div 2)"
    by (subst bit_length.simps) simp
  with Suc show ?case
    by simp
qed

lemma floor_log2_power2: "floor_log2 (2 ^ n) = int n"
proof -
  have "\<lfloor>(2::rat) ^ n\<rfloor> = 2 ^ n"
    by (metis floor_of_int of_int_numeral of_int_power)
  then show ?thesis
    by (simp add: floor_log2_def bit_length_power2)
qed

lemma round_half_even_of_int: "round_half_even (of_int k) = k"
  by (simp add: round_half_even_def)

lemma round_double_power2_overflow:
  assumes "1024 \<le> n"
  shows "round_double (2 ^ n) = None"
proof -
  have e: "max (floor_log2 (2 ^ n) - 52) (- 1074) = int (n - 52)"
    using assms by (simp add: floor_log2_power2)
  have p: "ipow 2 (int (n - 52)) = 2 ^ (n - 52)"
    by (simp add: ipow_def)
  have q: "(2::rat) ^ n / 2 ^ (n - 52) = of_int (2 ^ 52)"
    using assms by (simp add: power_diff)
  have r: "of_int (round_half_even (2 ^ n / ipow 2 (int (n - 52)))) * ipow 2 (int (n - 52))
      = (2::rat) ^ n"
    unfolding p q round_half_even_of_int using assms
    by (simp add: power_diff)
  have "(2::rat) ^ 1024 \<le> 2 ^ n"
    by (rule power_increasing) (use assms in simp_all)
  then show ?thesis
    unfolding round_double_def Let_def e r
    by simp
qed

lemma float_of_int_overflow: "float_of_int (2 ^ 1024) = Inl OverflowError"
proof -
  have "round_double (of_int \<bar>2 ^ 1024\<bar>) = round_double (2 ^ 1024)"
    by simp
  then show ?thesis
    unfolding float_of_int_def
    by (simp only: round_double_power2_overflow [of 1024] order_refl option.case)
qed

text \<open>
  In the script the exception does not end the run: the handler around the ingestion
  catches it and sets all four metrics to 0, the three good ones included.
\<close>

lemma huge_percentage_zeroes_all:
  "parse_summary world_huge = Inl OverflowError"
  "snd (read_coverage world_huge) = zero_coverage"
  "snd (main world_huge) = 1"
proof -
  have sf: "safe_float (JInt (2 ^ 1024)) = Inl OverflowError"
    by (simp add: safe_float_def safe_float_default_def float_of_int_overflow
        del: power_numeral)
  show p: "parse_summary world_huge = Inl OverflowError"
    by (simp add: parse_summary_def world_huge_def summary_huge_def and_then_def
        get_pct_def sf del: power_numeral)
  have ex: "path_exists world_huge summary_path"
    by (simp add: world_huge_def world_pass_def)
  show c: "snd (read_coverage world_huge) = zero_coverage"
    by (simp add: read_coverage_def p ex)
  have "\<not> skip_requested world_huge"
    by (simp add: skip_requested_def world_huge_def world_pass_def)
  moreover have "subprocess_run world_huge test_command = Inr 0"
    by (simp add: subprocess_run_def world_huge_def world_pass_def)
  moreover have "stdout_encodes world_huge"
    by (simp add: world_huge_def world_pass_def)
  ultimately show "snd (main world_huge) = 1"
    by (simp add: main_past_tests c thresholds_met_def zero_coverage_def threshold_defs)
qed

text \<open>
  C4. \<open>safe_float\<close> is meant to return a float on every input and never raise. It
  does not on large integers: for the \<^verbatim>\<open>int\<close> \<open>2^1024\<close>, which \<^verbatim>\<open>json.load\<close>
  returns for the 309-digit integer literal, \<^verbatim>\<open>float\<close> raises \<^verbatim>\<open>OverflowError\<close>,
  and \<open>safe_float\<close> catches \<^verbatim>\<open>ValueError\<close> and \<^verbatim>\<open>TypeError\<close> only, so the
  exception leaves it.
\<close>

theorem safe_float_raises_overflow: "safe_float (JInt (2 ^ 1024)) = Inl OverflowError"
  by (simp add: safe_float_def safe_float_default_def float_of_int_overflow
      del: power_numeral)

end
